theory Spec2Isabelle
  imports Main "HOL-Library.Word" "HOL-Library.Sublist"
begin

unbundle bit_operations_syntax

section \<open>The system surfaces the detector reads\<close>

text \<open>
  The native detector (\<^verbatim>\<open>security_native.cpp\<close>, \<^verbatim>\<open>anti_hook.cpp\<close>) reads the process
  pseudo-files, the file system, the property store, the environment, the dynamic linker and
  its own memory. One \<open>sys\<close> value is the state of all of them at the time of a call.
  A file that cannot be opened, a directory that cannot be listed, a path that \<^verbatim>\<open>stat\<close>
  rejects, a symbol that does not resolve are \<open>None\<close> (a null pointer is address 0).
\<close>

type_synonym byte = "8 word"
type_synonym addr = "64 word"
type_synonym mode_t = "32 word"

record sys =
  file_content :: "string \<Rightarrow> string option"
  dir_entries :: "string \<Rightarrow> string list option"
  stat :: "string \<Rightarrow> mode_t option"
  access_W_OK :: "string \<Rightarrow> bool"
  system_property :: "string \<Rightarrow> string option"
  getenv :: "string \<Rightarrow> string option"
  dlsym :: "string \<Rightarrow> addr"
  dladdr_self :: "string option option"
  mem :: "addr \<Rightarrow> byte"
  ptrace_TRACEME_ok :: bool

section \<open>Strings and streams\<close>

text \<open>\<^verbatim>\<open>h.find(s)\<close> of \<^verbatim>\<open>std::string\<close>: the position of the first occurrence of \<open>s\<close>
  in \<open>h\<close>, \<open>None\<close> for \<^verbatim>\<open>npos\<close>.\<close>

fun str_find :: "string \<Rightarrow> string \<Rightarrow> nat option" where
  "str_find [] s = (if s = [] then Some 0 else None)"
| "str_find (c # cs) s =
     (if prefix s (c # cs) then Some 0 else map_option Suc (str_find cs s))"

text \<open>\<^verbatim>\<open>strstr(h, s)\<close>: the rest of \<open>h\<close> from the first occurrence of \<open>s\<close>, \<open>None\<close> for
  the null pointer.\<close>

fun strstr :: "string \<Rightarrow> string \<Rightarrow> string option" where
  "strstr [] s = (if s = [] then Some [] else None)"
| "strstr (c # cs) s = (if prefix s (c # cs) then Some (c # cs) else strstr cs s)"

text \<open>A C string ends at its first NUL byte.\<close>

definition c_str :: "string \<Rightarrow> string" where
  "c_str buf = takeWhile (\<lambda>c. c \<noteq> CHR 0x00) buf"

text \<open>One \<^verbatim>\<open>std::getline(stream, line, delim)\<close>: the characters before the first delimiter,
  and the rest of the stream after it.\<close>

definition getline :: "char \<Rightarrow> string \<Rightarrow> string \<times> string" where
  "getline delim cs = (takeWhile (\<lambda>c. c \<noteq> delim) cs, drop 1 (dropWhile (\<lambda>c. c \<noteq> delim) cs))"

text \<open>The lines that \<^verbatim>\<open>while (std::getline(stream, line))\<close> visits: the loop stops when a
  read extracts nothing at the end of the stream.\<close>

function getlines :: "string \<Rightarrow> string list" where
  "getlines cs = (if cs = [] then [] else fst (getline CHR 0x0A cs) # getlines (snd (getline CHR 0x0A cs)))"
  by pat_completeness auto
termination
proof (relation "measure length")
  fix cs :: string
  assume "cs \<noteq> []"
  moreover have "length (dropWhile (\<lambda>c. c \<noteq> CHR 0x0A) cs) \<le> length cs"
    by (rule length_dropWhile_le)
  ultimately show "(snd (getline CHR 0x0A cs), cs) \<in> measure length"
    by (cases cs) (simp_all add: getline_def)
qed simp

declare getlines.simps [simp del]

text \<open>The lines of a stream that may have failed to open: an unopened stream yields no line.\<close>

definition stream_lines :: "string option \<Rightarrow> string list" where
  "stream_lines f = (case f of None \<Rightarrow> [] | Some cs \<Rightarrow> getlines cs)"

section \<open>The inline-hook probe\<close>

text \<open>\<^verbatim>\<open>*reinterpret_cast<unsigned int*>(bytes)\<close> on the little-endian Android ABIs.\<close>

definition load32 :: "(addr \<Rightarrow> byte) \<Rightarrow> addr \<Rightarrow> 32 word" where
  "load32 m a = ucast (m a) OR push_bit 8 (ucast (m (a + 1)))
                 OR push_bit 16 (ucast (m (a + 2))) OR push_bit 24 (ucast (m (a + 3)))"

definition checkInlineHook :: "sys \<Rightarrow> bool" where
  "checkInlineHook s =
     (let openAddr = dlsym s ''open'' in
      if openAddr = 0 then False
      else
        (let instr = load32 (mem s) openAddr in
         if instr AND 0xFC000000 = 0x14000000 then True
         else if instr AND 0xFF000000 = 0x58000000 then True
         else False))"


section \<open>The tracer probes\<close>

text \<open>\<^verbatim>\<open>std::stoi\<close> throws: \<^verbatim>\<open>std::invalid_argument\<close> when no digit can be converted,
  \<^verbatim>\<open>std::out_of_range\<close> when the number does not fit an \<^verbatim>\<open>int\<close>. No function of the
  detector catches either, so an exception leaves through the entry point that called.\<close>

datatype exn = Invalid_argument | Out_of_range

definition isspace :: "char \<Rightarrow> bool" where
  "isspace c = (c \<in> {CHR '' '', CHR 0x09, CHR 0x0A, CHR 0x0B, CHR 0x0C, CHR 0x0D})"

definition isdigit :: "char \<Rightarrow> bool" where
  "isdigit c = (48 \<le> (of_char c :: nat) \<and> (of_char c :: nat) \<le> 57)"

definition digits_value :: "string \<Rightarrow> int" where
  "digits_value ds = foldl (\<lambda>a c. 10 * a + (of_char c - 48)) 0 ds"

text \<open>\<^verbatim>\<open>std::stoi(str)\<close> in base 10: leading white space is skipped, one sign is accepted,
  the longest run of digits is converted and whatever follows it is ignored.\<close>

definition stoi :: "string \<Rightarrow> exn + int" where
  "stoi str =
     (let s1 = dropWhile isspace str;
          neg = (case s1 of [] \<Rightarrow> False | c # _ \<Rightarrow> c = CHR ''-'');
          s2 = (case s1 of [] \<Rightarrow> [] | c # r \<Rightarrow> if c = CHR ''-'' \<or> c = CHR ''+'' then r else s1);
          ds = takeWhile isdigit s2;
          v = (if neg then - digits_value ds else digits_value ds)
      in if ds = [] then Inl Invalid_argument
         else if v < - (2 ^ 31) \<or> 2 ^ 31 - 1 < v then Inl Out_of_range
         else Inr v)"

text \<open>The loop of \<^verbatim>\<open>checkTracerPid\<close> over the lines of the status record: the first line
  that starts with \<^verbatim>\<open>TracerPid:\<close> decides (\<^verbatim>\<open>return true\<close> or \<^verbatim>\<open>break\<close>).\<close>

fun tracer_loop :: "string list \<Rightarrow> exn + bool" where
  "tracer_loop [] = Inr False"
| "tracer_loop (line # rest) =
     (if str_find line ''TracerPid:'' = Some 0 then
        (case stoi (drop 10 line) of
           Inl e \<Rightarrow> Inl e
         | Inr tracerPid \<Rightarrow> if tracerPid \<noteq> 0 then Inr True else Inr False)
      else tracer_loop rest)"

definition checkTracerPid :: "sys \<Rightarrow> exn + bool" where
  "checkTracerPid s =
     (case file_content s ''/proc/self/status'' of
        None \<Rightarrow> Inr False
      | Some cs \<Rightarrow> tracer_loop (getlines cs))"

text \<open>What a call did, beside its value: the functions of the detector and the
  \<^verbatim>\<open>ptrace\<close> requests it went through, in order.\<close>

datatype ptrace_request = PTRACE_TRACEME | PTRACE_DETACH

datatype fn =
    F_verifyNativeCall | F_verifyProcessIntegrity | F_verifySoLoadPath | F_verifyCallerIntegrity
  | F_checkSuBinary | F_checkRootProperties | F_checkDangerousPermissions
  | F_checkLoadedLibraries | F_detectFrida | F_checkFridaPort | F_checkFridaThreads
  | F_checkFridaFiles | F_checkFridaInMemory | F_checkInlineHook | F_checkSuspiciousStrings
  | F_checkLdPreload | F_checkTracerPid | F_checkEmulatorCpu | F_checkQemuFiles
  | F_ptrace ptrace_request

type_synonym 'a traced = "'a \<times> fn list"

definition checkPtraceAttach :: "sys \<Rightarrow> (exn + bool) traced" where
  "checkPtraceAttach s =
     (case checkTracerPid s of
        Inl e \<Rightarrow> (Inl e, [F_checkTracerPid])
      | Inr tracer \<Rightarrow>
          if \<not> tracer then (Inr False, [F_checkTracerPid])
          else if \<not> ptrace_TRACEME_ok s then
            (Inr True, [F_checkTracerPid, F_ptrace PTRACE_TRACEME])
          else (Inr False, [F_checkTracerPid, F_ptrace PTRACE_TRACEME, F_ptrace PTRACE_DETACH]))"

section \<open>The root probes\<close>

definition S_IXUSR :: mode_t where
  "S_IXUSR = 0x40"

definition suPaths :: "string list" where
  "suPaths = [''/system/bin/su'', ''/system/xbin/su'', ''/sbin/su'', ''/su/bin/su'',
              ''/data/local/su'', ''/data/local/bin/su'', ''/data/local/xbin/su'',
              ''/vendor/bin/su'']"

fun su_loop :: "sys \<Rightarrow> string list \<Rightarrow> bool" where
  "su_loop s [] = False"
| "su_loop s (path # rest) =
     (case stat s path of
        Some st_mode \<Rightarrow> if st_mode AND S_IXUSR \<noteq> 0 then True else su_loop s rest
      | None \<Rightarrow> su_loop s rest)"

definition checkSuBinary :: "sys \<Rightarrow> bool" where
  "checkSuBinary s = su_loop s suPaths"

text \<open>\<^verbatim>\<open>__system_property_get\<close> writes the empty string for a property that is not set.\<close>

definition system_property_get :: "sys \<Rightarrow> string \<Rightarrow> string" where
  "system_property_get s name = (case system_property s name of None \<Rightarrow> [] | Some v \<Rightarrow> v)"

definition checkRootProperties :: "sys \<Rightarrow> bool" where
  "checkRootProperties s =
     (if system_property_get s ''ro.debuggable'' = ''1'' then True
      else if system_property_get s ''ro.secure'' = ''0'' then True
      else if strstr (system_property_get s ''ro.build.tags'') ''test-keys'' \<noteq> None then True
      else False)"

definition checkDangerousPermissions :: "sys \<Rightarrow> bool" where
  "checkDangerousPermissions s =
     list_ex (\<lambda>path. access_W_OK s path) [''/system'', ''/system/bin'', ''/system/xbin'']"


section \<open>The hook probes\<close>

definition fridaPorts :: "string list" where
  "fridaPorts = [''697A'', ''697B'', ''697C'', ''697D'', ''6992'', ''6993'', ''6995'']"

definition checkFridaPort :: "sys \<Rightarrow> bool" where
  "checkFridaPort s =
     (let tcp4File = file_content s ''/proc/net/tcp'';
          tcp6File = file_content s ''/proc/net/tcp6''
      in if tcp4File = None \<and> tcp6File = None then False
         else if list_ex (\<lambda>line. list_ex (\<lambda>port. str_find line port \<noteq> None) fridaPorts)
                   (stream_lines tcp4File) then True
         else if list_ex (\<lambda>line. list_ex (\<lambda>port. str_find line port \<noteq> None) fridaPorts)
                   (stream_lines tcp6File) then True
         else False)"

text \<open>\<^verbatim>\<open>snprintf(commPath, 256, "/proc/self/task/%s/comm", d_name)\<close> keeps 255 characters.\<close>

definition commPath :: "string \<Rightarrow> string" where
  "commPath d_name = take 255 (''/proc/self/task/'' @ d_name @ ''/comm'')"

definition frida_thread_name :: "string \<Rightarrow> bool" where
  "frida_thread_name threadName =
     (str_find threadName ''gmain'' \<noteq> None \<or> str_find threadName ''gum-js-loop'' \<noteq> None
      \<or> str_find threadName ''gdbus'' \<noteq> None \<or> str_find threadName ''pool-frida'' \<noteq> None)"

fun task_loop :: "sys \<Rightarrow> string list \<Rightarrow> bool" where
  "task_loop s [] = False"
| "task_loop s (d_name # rest) =
     (if take 1 d_name = ''.'' then task_loop s rest
      else case file_content s (commPath d_name) of
             Some cs \<Rightarrow>
               if frida_thread_name (fst (getline CHR 0x0A cs)) then True else task_loop s rest
           | None \<Rightarrow> task_loop s rest)"

definition checkFridaThreads :: "sys \<Rightarrow> bool" where
  "checkFridaThreads s =
     (case dir_entries s ''/proc/self/task'' of
        None \<Rightarrow> False
      | Some entries \<Rightarrow> task_loop s entries)"

definition checkFridaFiles :: "sys \<Rightarrow> bool" where
  "checkFridaFiles s =
     list_ex (\<lambda>f. stat s f \<noteq> None)
       [''/data/local/tmp/frida-server'', ''/data/local/tmp/frida'',
        ''/data/local/tmp/re.frida.server'']"

definition checkFridaInMemory :: "sys \<Rightarrow> bool" where
  "checkFridaInMemory s =
     (case file_content s ''/proc/self/maps'' of
        None \<Rightarrow> False
      | Some cs \<Rightarrow>
          list_ex (\<lambda>line. str_find line ''frida'' \<noteq> None \<or> str_find line ''linjector'' \<noteq> None)
            (getlines cs))"

definition suspiciousLibs :: "string list" where
  "suspiciousLibs = [''frida'', ''xposed'', ''substrate'', ''libriru'', ''lsposed'']"

definition checkLoadedLibraries :: "sys \<Rightarrow> bool" where
  "checkLoadedLibraries s =
     (case file_content s ''/proc/self/maps'' of
        None \<Rightarrow> False
      | Some cs \<Rightarrow>
          list_ex (\<lambda>line. list_ex (\<lambda>lib. str_find line lib \<noteq> None) suspiciousLibs) (getlines cs))"

definition detectFrida :: "sys \<Rightarrow> bool traced" where
  "detectFrida s =
     (let detected = False;
          detected = (if checkFridaPort s then True else detected);
          detected = (if checkFridaThreads s then True else detected);
          detected = (if checkFridaFiles s then True else detected);
          detected = (if checkFridaInMemory s then True else detected);
          detected = (if checkInlineHook s then True else detected)
      in (detected, [F_checkFridaPort, F_checkFridaThreads, F_checkFridaFiles,
                     F_checkFridaInMemory, F_checkInlineHook]))"

definition suspiciousStrs :: "string list" where
  "suspiciousStrs = [''frida'', ''gdb'', ''gdbserver'', ''lldb'', ''ida'', ''substrate'']"

definition checkSuspiciousStrings :: "sys \<Rightarrow> bool" where
  "checkSuspiciousStrings s =
     (case file_content s ''/proc/self/cmdline'' of
        None \<Rightarrow> False
      | Some cs \<Rightarrow>
          (let cmdline = fst (getline CHR 0x00 cs)
           in list_ex (\<lambda>str. str_find cmdline str \<noteq> None) suspiciousStrs))"

definition checkLdPreload :: "sys \<Rightarrow> bool" where
  "checkLdPreload s =
     (case getenv s ''LD_PRELOAD'' of
        None \<Rightarrow> False
      | Some ldPreload \<Rightarrow> 0 < length (c_str ldPreload))"

section \<open>The emulator probes\<close>

definition checkEmulatorCpu :: "sys \<Rightarrow> bool" where
  "checkEmulatorCpu s =
     (case file_content s ''/proc/cpuinfo'' of
        None \<Rightarrow> False
      | Some content \<Rightarrow>
          if str_find content ''Intel'' \<noteq> None \<or> str_find content ''AMD'' \<noteq> None
             \<or> str_find content ''GenuineIntel'' \<noteq> None then True
          else if str_find content ''goldfish'' \<noteq> None \<or> str_find content ''ranchu'' \<noteq> None
             \<or> str_find content ''vbox'' \<noteq> None then True
          else False)"

definition checkQemuFiles :: "sys \<Rightarrow> bool" where
  "checkQemuFiles s =
     list_ex (\<lambda>f. stat s f \<noteq> None)
       [''/dev/socket/qemud'', ''/dev/qemu_pipe'', ''/system/lib/libc_malloc_debug_qemu.so'',
        ''/sys/qemu_trace'', ''/system/bin/qemu-props'']"

section \<open>The caller-integrity gate\<close>

text \<open>
  \<^verbatim>\<open>anti_hook.cpp\<close> keeps two globals, both null until \<^verbatim>\<open>initAntiHook\<close> runs. A
  \<^verbatim>\<open>JavaVM*\<close> and a \<^verbatim>\<open>jobject\<close> are compared as pointers only: a number names the
  object, \<open>None\<close> is the null pointer.
\<close>

type_synonym javavm = nat
type_synonym jobject = "nat option"
type_synonym jclass = "nat option"
type_synonym jmethodID = "nat option"

record globals =
  g_jvm :: "javavm option"
  g_context :: jobject

definition initial_globals :: globals where
  "initial_globals = \<lparr>g_jvm = None, g_context = None\<rparr>"

text \<open>
  The \<^verbatim>\<open>JNIEnv\<close> of a call, as far as the gate uses it: the answer of \<^verbatim>\<open>GetJavaVM\<close>
  (\<open>None\<close> when it is not \<^verbatim>\<open>JNI_OK\<close>), \<^verbatim>\<open>NewGlobalRef\<close>, the lookups of
  \<^verbatim>\<open>java/lang/Thread\<close> and of its two methods (\<open>None\<close> for a null result), and what
  \<^verbatim>\<open>Thread.currentThread().getStackTrace()\<close> returns: the class names of the frames, or
  \<open>None\<close> for a null array. The source does not check the lookup of
  \<^verbatim>\<open>StackTraceElement.getClassName\<close> nor the elements of the array; the Java platform
  provides both, and the model takes them as given.
\<close>

record jnienv =
  GetJavaVM :: "javavm option"
  NewGlobalRef :: "jobject \<Rightarrow> jobject"
  FindClass_Thread :: jclass
  GetStaticMethodID_currentThread :: jmethodID
  GetMethodID_getStackTrace :: jmethodID
  getStackTrace :: "string list option"

definition package :: string where
  "package = ''com.grtsinry43.environmentdetector''"

text \<open>The loop over the frames: \<^verbatim>\<open>for (i = 0; i < stackSize && i < 20; i++)\<close>, left at the
  first frame of the package.\<close>

fun stack_loop :: "nat \<Rightarrow> string list \<Rightarrow> bool" where
  "stack_loop i [] = False"
| "stack_loop i (className # rest) =
     (if i < 20 then
        (if strstr (c_str className) package \<noteq> None then True else stack_loop (Suc i) rest)
      else False)"

definition verifyCallerIntegrity :: "globals \<Rightarrow> jnienv option \<Rightarrow> bool" where
  "verifyCallerIntegrity g env =
     (case env of
        None \<Rightarrow> False
      | Some e \<Rightarrow>
          if g_jvm g = None then False
          else if GetJavaVM e = None \<or> GetJavaVM e \<noteq> g_jvm g then False
          else if FindClass_Thread e = None then False
          else if GetStaticMethodID_currentThread e = None \<or> GetMethodID_getStackTrace e = None
          then False
          else (case getStackTrace e of
                  Some stackTrace \<Rightarrow>
                    (let foundOurPackage = stack_loop 0 stackTrace
                     in if \<not> foundOurPackage then False else True)
                | None \<Rightarrow> True))"

text \<open>\<^verbatim>\<open>fgets(buf, n, fp)\<close> reads at most \<open>n - 1\<close> characters and stops after a newline.\<close>

definition fgets :: "nat \<Rightarrow> string \<Rightarrow> string" where
  "fgets n cs =
     (let b = take (n - 1) cs
      in takeWhile (\<lambda>c. c \<noteq> CHR 0x0A) b @ take 1 (dropWhile (\<lambda>c. c \<noteq> CHR 0x0A) b))"

definition verifyProcessIntegrity :: "sys \<Rightarrow> bool" where
  "verifyProcessIntegrity s =
     (case file_content s ''/proc/self/cmdline'' of
        None \<Rightarrow> False
      | Some cs \<Rightarrow>
          (let processName = c_str (fgets 256 cs)
           in if strstr processName package = None then False else True))"

text \<open>\<^verbatim>\<open>dladdr\<close> on the module's own function: \<open>None\<close> when it returns 0, \<open>Some None\<close>
  when \<^verbatim>\<open>dli_fname\<close> is null.\<close>

definition verifySoLoadPath :: "sys \<Rightarrow> bool" where
  "verifySoLoadPath s =
     (case dladdr_self s of
        None \<Rightarrow> False
      | Some None \<Rightarrow> False
      | Some (Some soPath) \<Rightarrow>
          if strstr soPath ''/data/app/'' = None \<or> strstr soPath package = None then False
          else True)"

definition verifyNativeCall :: "globals \<Rightarrow> sys \<Rightarrow> jnienv option \<Rightarrow> bool traced" where
  "verifyNativeCall g s env =
     (if \<not> verifyProcessIntegrity s then (False, [F_verifyProcessIntegrity])
      else if \<not> verifySoLoadPath s then (False, [F_verifyProcessIntegrity, F_verifySoLoadPath])
      else if \<not> verifyCallerIntegrity g env then
        (False, [F_verifyProcessIntegrity, F_verifySoLoadPath, F_verifyCallerIntegrity])
      else (True, [F_verifyProcessIntegrity, F_verifySoLoadPath, F_verifyCallerIntegrity]))"

text \<open>\<^verbatim>\<open>initAntiHook\<close> stores unconditionally. \<^verbatim>\<open>GetJavaVM\<close> writes the handle when it
  succeeds (its status is not read) and leaves \<^verbatim>\<open>g_jvm\<close> as it was otherwise.\<close>

definition initAntiHook :: "globals \<Rightarrow> jnienv \<Rightarrow> jobject \<Rightarrow> globals" where
  "initAntiHook g env ctx =
     \<lparr>g_jvm = (case GetJavaVM env of Some vm \<Rightarrow> Some vm | None \<Rightarrow> g_jvm g),
      g_context = NewGlobalRef env ctx\<rparr>"


section \<open>The byte-comparison primitive\<close>

text \<open>\<^verbatim>\<open>for (size_t i = 0; i < len; i++)\<close> over the bytes at the two addresses; \<open>i\<close> stays
  below \<open>len\<close>, so it never wraps.\<close>

function compare_loop :: "(addr \<Rightarrow> byte) \<Rightarrow> addr \<Rightarrow> addr \<Rightarrow> nat \<Rightarrow> nat \<Rightarrow> bool" where
  "compare_loop m actualBytes expectedBytes len i =
     (if i < len then
        (if m (actualBytes + of_nat i) \<noteq> m (expectedBytes + of_nat i) then True
         else compare_loop m actualBytes expectedBytes len (Suc i))
      else False)"
  by pat_completeness auto
termination
  by (relation "measure (\<lambda>(m, a, e, len, i). len - i)") auto

declare compare_loop.simps [simp del]

definition detectFunctionHook :: "(addr \<Rightarrow> byte) \<Rightarrow> addr \<Rightarrow> addr \<Rightarrow> nat \<Rightarrow> bool" where
  "detectFunctionHook m funcPtr expectedBytes len =
     (if funcPtr = 0 \<or> expectedBytes = 0 \<or> len = 0 then False
      else compare_loop m funcPtr expectedBytes len 0)"

section \<open>The entry points\<close>

text \<open>An entry point returns a \<^verbatim>\<open>jboolean\<close>, or an exception leaves it (\<open>Inl\<close>).\<close>

type_synonym outcome = "(exn + bool) traced"

definition nativeCheckRoot :: "globals \<Rightarrow> sys \<Rightarrow> jnienv option \<Rightarrow> outcome" where
  "nativeCheckRoot g s env =
     (let (verified, t) = verifyNativeCall g s env
      in if \<not> verified then (Inr True, F_verifyNativeCall # t)
         else
           (let isRooted = False;
                isRooted = (if checkSuBinary s then True else isRooted);
                isRooted = (if checkRootProperties s then True else isRooted);
                isRooted = (if checkDangerousPermissions s then True else isRooted)
            in (Inr isRooted,
                F_verifyNativeCall # t
                  @ [F_checkSuBinary, F_checkRootProperties, F_checkDangerousPermissions])))"

definition nativeCheckHook :: "sys \<Rightarrow> outcome" where
  "nativeCheckHook s =
     (let isHooked = False;
          isHooked = (if checkLoadedLibraries s then True else isHooked);
          (frida, t) = detectFrida s;
          isHooked = (if frida then True else isHooked);
          isHooked = (if checkSuspiciousStrings s then True else isHooked);
          isHooked = (if checkLdPreload s then True else isHooked)
      in (Inr isHooked,
          [F_checkLoadedLibraries, F_detectFrida] @ t @ [F_checkSuspiciousStrings, F_checkLdPreload]))"

definition nativeCheckDebugger :: "sys \<Rightarrow> outcome" where
  "nativeCheckDebugger s =
     (case checkTracerPid s of
        Inl e \<Rightarrow> (Inl e, [F_checkTracerPid])
      | Inr tracer \<Rightarrow>
          (let isDebugging = False;
               isDebugging = (if tracer then True else isDebugging)
           in (Inr isDebugging, [F_checkTracerPid])))"

definition nativeCheckEmulator :: "sys \<Rightarrow> outcome" where
  "nativeCheckEmulator s =
     (let isEmulator = False;
          isEmulator = (if checkEmulatorCpu s then True else isEmulator);
          isEmulator = (if checkQemuFiles s then True else isEmulator)
      in (Inr isEmulator, [F_checkEmulatorCpu, F_checkQemuFiles]))"

text \<open>
  The calls the embedding application can make, and what one call does to the globals. A
  sequence of calls runs each call in the system state of its moment and ends at an
  exception, which no caller catches.
\<close>

datatype request =
    Initialize jnienv jobject
  | CheckRoot "jnienv option"
  | CheckHook
  | CheckDebugger
  | CheckEmulator

fun invoke :: "globals \<Rightarrow> sys \<Rightarrow> request \<Rightarrow> globals \<times> outcome option" where
  "invoke g s (Initialize env ctx) = (initAntiHook g env ctx, None)"
| "invoke g s (CheckRoot env) = (g, Some (nativeCheckRoot g s env))"
| "invoke g s CheckHook = (g, Some (nativeCheckHook s))"
| "invoke g s CheckDebugger = (g, Some (nativeCheckDebugger s))"
| "invoke g s CheckEmulator = (g, Some (nativeCheckEmulator s))"

definition thrown :: "outcome option \<Rightarrow> bool" where
  "thrown r = (case r of Some (Inl e, t) \<Rightarrow> True | _ \<Rightarrow> False)"

fun run :: "globals \<Rightarrow> (sys \<times> request) list \<Rightarrow> globals" where
  "run g [] = g"
| "run g ((s, r) # rest) =
     (let (g', out) = invoke g s r in if thrown out then g' else run g' rest)"

fun is_Initialize :: "request \<Rightarrow> bool" where
  "is_Initialize (Initialize env ctx) = True"
| "is_Initialize r = False"


section \<open>The tracer field, as the specification words it\<close>

text \<open>
  The specification's reading of the debugger verdict, written without the loop and without
  the limits of \<^verbatim>\<open>int\<close>: the TracerPid field of a readable status record is its first line
  that starts with \<^verbatim>\<open>TracerPid:\<close>, the value of the field is the decimal number after the
  colon, however large, and a tracer is attached when that value is not zero. A field with
  no digits carries no value.
\<close>

definition spec_TracerPid_field :: "string option \<Rightarrow> string option" where
  "spec_TracerPid_field status =
     (case status of
        None \<Rightarrow> None
      | Some cs \<Rightarrow> map_option (drop 10) (find (prefix ''TracerPid:'') (getlines cs)))"



section \<open>Example states\<close>

text \<open>A system on which nothing can be read, and no file, property or symbol is there.\<close>

definition bare_sys :: sys where
  "bare_sys =
     \<lparr>file_content = (\<lambda>p. None), dir_entries = (\<lambda>p. None), stat = (\<lambda>p. None),
      access_W_OK = (\<lambda>p. False), system_property = (\<lambda>n. None), getenv = (\<lambda>n. None),
      dlsym = (\<lambda>n. 0), dladdr_self = None, mem = (\<lambda>a. 0), ptrace_TRACEME_ok = True\<rparr>"

text \<open>A status record whose TracerPid line carries the text \<open>v\<close>.\<close>

definition status_record :: "string \<Rightarrow> string" where
  "status_record v =
     ''Name:'' @ [CHR 0x09] @ ''app'' @ [CHR 0x0A]
     @ ''TracerPid:'' @ [CHR 0x09] @ v @ [CHR 0x0A]
     @ ''Uid:'' @ [CHR 0x09] @ ''10123'' @ [CHR 0x0A]"

definition status_sys :: "string \<Rightarrow> sys" where
  "status_sys v =
     bare_sys\<lparr>file_content :=
                 (\<lambda>p. if p = ''/proc/self/status'' then Some (status_record v) else None)\<rparr>"

text \<open>The application's own process on a clean device: its command line and module path
  name the package, no tracer, no root evidence.\<close>

definition app_sys :: sys where
  "app_sys =
     bare_sys\<lparr>file_content :=
                 (\<lambda>p. if p = ''/proc/self/cmdline'' then Some (package @ [CHR 0x00])
                      else if p = ''/proc/self/status'' then Some (status_record ''0'')
                      else None),
               dladdr_self :=
                 Some (Some ''/data/app/com.grtsinry43.environmentdetector-1/lib/arm64/libsecurity.so'')\<rparr>"

text \<open>The environment of a call that comes from the application's own Java class.\<close>

definition app_env :: jnienv where
  "app_env =
     \<lparr>GetJavaVM = Some 1, NewGlobalRef = (\<lambda>obj. obj), FindClass_Thread = Some 2,
      GetStaticMethodID_currentThread = Some 3, GetMethodID_getStackTrace = Some 4,
      getStackTrace = Some [''dalvik.system.VMStack'', ''java.lang.Thread'',
        ''com.grtsinry43.environmentdetector.security.NativeSecurityDetector'']\<rparr>"

definition app_globals :: globals where
  "app_globals = initAntiHook initial_globals app_env (Some 7)"

text \<open>The same environment when the stack trace has no frame of the package, and when
  \<^verbatim>\<open>getStackTrace\<close> returns null.\<close>

definition foreign_stack_env :: jnienv where
  "foreign_stack_env = app_env\<lparr>getStackTrace := Some [''java.lang.Thread'']\<rparr>"

definition null_stack_env :: jnienv where
  "null_stack_env = app_env\<lparr>getStackTrace := None\<rparr>"

text \<open>The functions of the caller-integrity gate.\<close>

definition gate_fns :: "fn set" where
  "gate_fns = {F_verifyNativeCall, F_verifyProcessIntegrity, F_verifySoLoadPath,
               F_verifyCallerIntegrity}"

text \<open>A system whose \<^verbatim>\<open>open\<close> resolves to address \<open>0x7000\<close>, with four given bytes there.\<close>

definition open_code_sys :: "byte \<Rightarrow> byte \<Rightarrow> byte \<Rightarrow> byte \<Rightarrow> sys" where
  "open_code_sys b0 b1 b2 b3 =
     bare_sys\<lparr>dlsym := (\<lambda>n. if n = ''open'' then 0x7000 else 0),
               mem := (\<lambda>a. if a = 0x7000 then b0 else if a = 0x7001 then b1
                           else if a = 0x7002 then b2 else if a = 0x7003 then b3 else 0)\<rparr>"

text \<open>A file system whose only entry is \<^verbatim>\<open>/sbin/su\<close>, with the given mode.\<close>

definition su_sys :: "mode_t \<Rightarrow> sys" where
  "su_sys m = bare_sys\<lparr>stat := (\<lambda>p. if p = ''/sbin/su'' then Some m else None)\<rparr>"

text \<open>A memory that holds 1 at address \<open>0x1002\<close> and 0 everywhere else.\<close>

definition patched_mem :: "addr \<Rightarrow> byte" where
  "patched_mem a = (if a = 0x1002 then 1 else 0)"

section \<open>Facts about the helpers\<close>

lemma str_find_Some_0: "(str_find h s = Some 0) = prefix s h"
  by (cases h) auto

lemma tracer_loop_find:
  "tracer_loop ls =
     (case find (prefix ''TracerPid:'') ls of
        None \<Rightarrow> Inr False
      | Some l \<Rightarrow> (case stoi (drop 10 l) of Inl e \<Rightarrow> Inl e | Inr v \<Rightarrow> Inr (v \<noteq> 0)))"
  by (induction ls) (simp_all add: str_find_Some_0 split: sum.splits)



lemma checkTracerPid_throws:
  "(checkTracerPid s = Inl e)
     = (\<exists>v. spec_TracerPid_field (file_content s ''/proc/self/status'') = Some v
            \<and> stoi v = Inl e)"
  by (auto simp: checkTracerPid_def spec_TracerPid_field_def tracer_loop_find
        split: option.splits sum.splits)


lemma su_loop_iff:
  "su_loop s ps
     = (\<exists>path\<in>set ps. \<exists>st_mode. stat s path = Some st_mode \<and> st_mode AND S_IXUSR \<noteq> 0)"
  by (induction ps) (auto split: option.splits)

lemma compare_loop_iff:
  "compare_loop m a e len i
     = (\<exists>j. i \<le> j \<and> j < len \<and> m (a + of_nat j) \<noteq> m (e + of_nat j))"
proof (induction m a e len i rule: compare_loop.induct)
  case (1 m a e len i)
  show ?case
  proof (cases "i < len")
    case False
    then show ?thesis by (subst compare_loop.simps) auto
  next
    case True
    show ?thesis
    proof (cases "m (a + of_nat i) \<noteq> m (e + of_nat i)")
      case True
      with \<open>i < len\<close> show ?thesis by (subst compare_loop.simps) auto
    next
      case False
      with \<open>i < len\<close> have "compare_loop m a e len i = compare_loop m a e len (Suc i)"
        by (subst compare_loop.simps) simp
      also have "\<dots> = (\<exists>j. Suc i \<le> j \<and> j < len \<and> m (a + of_nat j) \<noteq> m (e + of_nat j))"
        using "1.IH" \<open>i < len\<close> False by simp
      also have "\<dots> = (\<exists>j. i \<le> j \<and> j < len \<and> m (a + of_nat j) \<noteq> m (e + of_nat j))"
        using False by (metis Suc_leD Suc_leI le_neq_implies_less)
      finally show ?thesis .
    qed
  qed
qed

lemma stack_loop_iff:
  "stack_loop i frames = (\<exists>c\<in>set (take (20 - i) frames). strstr (c_str c) package \<noteq> None)"
proof (induction frames arbitrary: i)
  case Nil
  then show ?case by simp
next
  case (Cons c frames)
  show ?case
  proof (cases "i < 20")
    case True
    then have "20 - i = Suc (20 - Suc i)" by simp
    then show ?thesis using True Cons.IH [of "Suc i"] by auto
  next
    case False
    then show ?thesis by simp
  qed
qed

text \<open>The caller check in closed form: with every lookup successful and the handles equal,
  it passes when a frame among the first 20 is of the package, and also when there is no
  stack trace at all.\<close>

lemma verifyCallerIntegrity_iff:
  "verifyCallerIntegrity g env =
     (case env of
        None \<Rightarrow> False
      | Some e \<Rightarrow>
          g_jvm g \<noteq> None \<and> GetJavaVM e = g_jvm g \<and> FindClass_Thread e \<noteq> None
          \<and> GetStaticMethodID_currentThread e \<noteq> None \<and> GetMethodID_getStackTrace e \<noteq> None
          \<and> (case getStackTrace e of
                None \<Rightarrow> True
              | Some frames \<Rightarrow> \<exists>c\<in>set (take 20 frames). strstr (c_str c) package \<noteq> None))"
  by (cases env; cases "getStackTrace (the env)")
    (auto simp: verifyCallerIntegrity_def stack_loop_iff)

lemma verifyCallerIntegrity_no_jvm: "g_jvm g = None \<Longrightarrow> \<not> verifyCallerIntegrity g env"
  by (cases env) (simp_all add: verifyCallerIntegrity_def)

lemma verifyNativeCall_fst:
  "fst (verifyNativeCall g s env)
     = (verifyProcessIntegrity s \<and> verifySoLoadPath s \<and> verifyCallerIntegrity g env)"
  by (simp add: verifyNativeCall_def)

lemma verifyNativeCall_trace:
  "set (snd (verifyNativeCall g s env))
     \<subseteq> {F_verifyProcessIntegrity, F_verifySoLoadPath, F_verifyCallerIntegrity}"
  by (simp add: verifyNativeCall_def)

lemma invoke_not_Initialize: "\<not> is_Initialize r \<Longrightarrow> fst (invoke g s r) = g"
  by (cases r) simp_all

lemma run_not_Initialize: "\<forall>c\<in>set calls. \<not> is_Initialize (snd c) \<Longrightarrow> run g calls = g"
proof (induction calls arbitrary: g)
  case Nil
  then show ?case by simp
next
  case (Cons c calls)
  obtain s r where c: "c = (s, r)" by (cases c)
  with Cons.prems have "\<not> is_Initialize r" by simp
  then have "fst (invoke g s r) = g" by (rule invoke_not_Initialize)
  moreover from Cons have "run g calls = g" by simp
  ultimately show ?case using c by (simp add: split_beta)
qed

text \<open>The root, hook and emulator entry points return a boolean in every state.\<close>

lemma other_entry_points_return:
  "(\<exists>b. fst (nativeCheckRoot g s env) = Inr b)
   \<and> (\<exists>b. fst (nativeCheckHook s) = Inr b)
   \<and> (\<exists>b. fst (nativeCheckEmulator s) = Inr b)"
  by (cases "verifyNativeCall g s env")
    (auto simp: nativeCheckRoot_def nativeCheckHook_def nativeCheckEmulator_def Let_def
      split: prod.splits)

text \<open>The clean application state shows no root evidence.\<close>

lemma app_sys_clean:
  "\<not> checkSuBinary app_sys \<and> \<not> checkRootProperties app_sys \<and> \<not> checkDangerousPermissions app_sys"
  by code_simp

section \<open>The root verdict and the gate\<close>

text \<open>
  C1. Whenever the caller-integrity gate fails, that is whenever the process-identity, the
  module-load-path or the runtime/call-stack check fails, \<^verbatim>\<open>nativeCheckRoot\<close> returns
  true at once: what it did is the gate and nothing else, and none of the three root
  probes (su binary, system properties, directory write permission) was evaluated.
\<close>

theorem nativeCheckRoot_gate_failure:
  assumes "\<not> verifyProcessIntegrity s \<or> \<not> verifySoLoadPath s \<or> \<not> verifyCallerIntegrity g env"
  shows "fst (nativeCheckRoot g s env) = Inr True
         \<and> snd (nativeCheckRoot g s env) = F_verifyNativeCall # snd (verifyNativeCall g s env)
         \<and> set (snd (nativeCheckRoot g s env))
             \<inter> {F_checkSuBinary, F_checkRootProperties, F_checkDangerousPermissions} = {}"
proof -
  from assms have failed: "\<not> fst (verifyNativeCall g s env)"
    by (simp add: verifyNativeCall_fst)
  then have "nativeCheckRoot g s env
               = (Inr True, F_verifyNativeCall # snd (verifyNativeCall g s env))"
    by (cases "verifyNativeCall g s env") (simp add: nativeCheckRoot_def)
  moreover have "set (F_verifyNativeCall # snd (verifyNativeCall g s env))
             \<inter> {F_checkSuBinary, F_checkRootProperties, F_checkDangerousPermissions} = {}"
    using verifyNativeCall_trace [of g s env] by auto
  ultimately show ?thesis by simp
qed

text \<open>The gate failing alone: the application's clean state, called with a stack trace that
  has no frame of the package.\<close>

theorem nativeCheckRoot_gate_failure_witness:
  "\<not> verifyCallerIntegrity app_globals (Some foreign_stack_env)
   \<and> \<not> checkSuBinary app_sys \<and> \<not> checkRootProperties app_sys
   \<and> \<not> checkDangerousPermissions app_sys
   \<and> nativeCheckRoot app_globals app_sys (Some foreign_stack_env)
       = (Inr True, [F_verifyNativeCall, F_verifyProcessIntegrity, F_verifySoLoadPath,
                     F_verifyCallerIntegrity])"
proof -
  have h: "\<not> verifyCallerIntegrity app_globals (Some foreign_stack_env)"
    by code_simp
  have t: "snd (verifyNativeCall app_globals app_sys (Some foreign_stack_env))
           = [F_verifyProcessIntegrity, F_verifySoLoadPath, F_verifyCallerIntegrity]"
    by code_simp
  show ?thesis
    using h t app_sys_clean
      nativeCheckRoot_gate_failure [of app_sys app_globals "Some foreign_stack_env"]
    by (simp add: prod_eq_iff)
qed

text \<open>
  C2. The gate is meant to fail on every failure of a sub-check, an unobtainable stack
  trace included. At the application's own clean state, with the handle captured and every
  lookup successful, a null result of \<^verbatim>\<open>getStackTrace\<close> makes the caller check pass: the
  gate passes and \<^verbatim>\<open>nativeCheckRoot\<close> reports false.
\<close>

theorem gate_passes_without_stack_trace:
  "verifyCallerIntegrity app_globals (Some null_stack_env)
   \<and> verifyNativeCall app_globals app_sys (Some null_stack_env)
       = (True, [F_verifyProcessIntegrity, F_verifySoLoadPath, F_verifyCallerIntegrity])
   \<and> fst (nativeCheckRoot app_globals app_sys (Some null_stack_env)) = Inr False"
  by code_simp

text \<open>
  C10. As long as \<^verbatim>\<open>initAntiHook\<close> has not been called, the caller check of the gate
  fails for want of a stored handle and \<^verbatim>\<open>nativeCheckRoot\<close> returns true, in every
  system state and for every environment, whatever calls came before. The hook,
  debugger and emulator entry points give the same outcome under any two values of the
  globals, and none of them goes through a function of the gate.
\<close>

theorem uninitialized_checkRoot:
  "((\<forall>c\<in>set calls. \<not> is_Initialize (snd c)) \<longrightarrow>
      \<not> verifyCallerIntegrity (run initial_globals calls) env
      \<and> fst (nativeCheckRoot (run initial_globals calls) s env) = Inr True)
   \<and> snd (invoke g s CheckHook) = snd (invoke g' s CheckHook)
   \<and> snd (invoke g s CheckDebugger) = snd (invoke g' s CheckDebugger)
   \<and> snd (invoke g s CheckEmulator) = snd (invoke g' s CheckEmulator)
   \<and> set (snd (nativeCheckHook s)) \<inter> gate_fns = {}
   \<and> set (snd (nativeCheckDebugger s)) \<inter> gate_fns = {}
   \<and> set (snd (nativeCheckEmulator s)) \<inter> gate_fns = {}"
proof (intro conjI impI)
  assume "\<forall>c\<in>set calls. \<not> is_Initialize (snd c)"
  then have "run initial_globals calls = initial_globals"
    by (rule run_not_Initialize)
  then show no: "\<not> verifyCallerIntegrity (run initial_globals calls) env"
    by (simp add: verifyCallerIntegrity_no_jvm initial_globals_def)
  then have "\<not> fst (verifyNativeCall (run initial_globals calls) s env)"
    by (simp add: verifyNativeCall_fst)
  then show "fst (nativeCheckRoot (run initial_globals calls) s env) = Inr True"
    by (cases "verifyNativeCall (run initial_globals calls) s env")
      (simp add: nativeCheckRoot_def)
next
  show "set (snd (nativeCheckHook s)) \<inter> gate_fns = {}"
    by (simp add: nativeCheckHook_def detectFrida_def gate_fns_def Let_def)
  show "set (snd (nativeCheckDebugger s)) \<inter> gate_fns = {}"
    by (simp add: nativeCheckDebugger_def gate_fns_def split: sum.splits)
  show "set (snd (nativeCheckEmulator s)) \<inter> gate_fns = {}"
    by (simp add: nativeCheckEmulator_def gate_fns_def Let_def)
qed simp_all

text \<open>No root evidence, a call from the application's own class, and still true.\<close>

theorem uninitialized_checkRoot_witness:
  "\<not> is_Initialize CheckHook \<and> \<not> is_Initialize (CheckRoot (Some app_env))
   \<and> \<not> checkSuBinary app_sys \<and> \<not> checkRootProperties app_sys
   \<and> \<not> checkDangerousPermissions app_sys
   \<and> fst (nativeCheckRoot
            (run initial_globals [(app_sys, CheckHook), (app_sys, CheckRoot (Some app_env))])
            app_sys (Some app_env)) = Inr True"
proof -
  have h: "\<forall>c\<in>set [(app_sys, CheckHook), (app_sys, CheckRoot (Some app_env))].
             \<not> is_Initialize (snd c)"
    by simp
  show ?thesis
    using h app_sys_clean
      uninitialized_checkRoot [where calls = "[(app_sys, CheckHook), (app_sys, CheckRoot (Some app_env))]"
        and s = app_sys and env = "Some app_env"]
    by simp
qed

section \<open>The stored handle\<close>

text \<open>
  C4, as stated, fails: after \<^verbatim>\<open>initAntiHook\<close> has stored the context object 7, a second
  call with the context object 8 leaves 8 in \<^verbatim>\<open>g_context\<close>.
\<close>

theorem second_initialize_overwrites:
  "run app_globals [(app_sys, Initialize app_env (Some 8))] \<noteq> app_globals
   \<and> g_context app_globals = Some 7
   \<and> g_context (run app_globals [(app_sys, Initialize app_env (Some 8))]) = Some 8"
  by (simp add: app_globals_def initAntiHook_def app_env_def initial_globals_def thrown_def)

text \<open>
  C4, amended. No sequence of calls of the four check entry points changes the stored
  runtime handle or context reference. An initialization call, the first or a later one,
  stores a reference to the context it is given, and the runtime handle of its own
  environment when that can be obtained (the old handle stays otherwise).
\<close>

theorem trust_context_writers:
  "((\<forall>c\<in>set calls. \<not> is_Initialize (snd c)) \<longrightarrow> run g calls = g)
   \<and> g_context (run g [(s, Initialize env ctx)]) = NewGlobalRef env ctx
   \<and> g_jvm (run g [(s, Initialize env ctx)])
       = (case GetJavaVM env of Some vm \<Rightarrow> Some vm | None \<Rightarrow> g_jvm g)"
  by (simp add: run_not_Initialize initAntiHook_def thrown_def)

theorem trust_context_writers_witness:
  "\<not> is_Initialize (CheckRoot (Some app_env)) \<and> \<not> is_Initialize CheckHook
   \<and> \<not> is_Initialize CheckDebugger \<and> \<not> is_Initialize CheckEmulator
   \<and> run app_globals [(app_sys, CheckRoot (Some app_env)), (app_sys, CheckHook),
                       (status_sys ''1234'', CheckDebugger), (app_sys, CheckEmulator)]
       = app_globals"
proof -
  have h: "\<forall>c\<in>set [(app_sys, CheckRoot (Some app_env)), (app_sys, CheckHook),
              (status_sys ''1234'', CheckDebugger), (app_sys, CheckEmulator)].
       \<not> is_Initialize (snd c)"
    by simp
  show ?thesis
    using h trust_context_writers [of "[(app_sys, CheckRoot (Some app_env)), (app_sys, CheckHook),
              (status_sys ''1234'', CheckDebugger), (app_sys, CheckEmulator)]" app_globals]
    by simp
qed

section \<open>The debugger verdict\<close>

text \<open>
  C3. The entry points are meant to return a boolean on every content of the surfaces they
  read. On a status record whose TracerPid line carries no number (or no text at all), or a
  number outside the range of \<^verbatim>\<open>int\<close>, \<^verbatim>\<open>std::stoi\<close> throws and the exception leaves
  \<^verbatim>\<open>nativeCheckDebugger\<close>.
\<close>

theorem nativeCheckDebugger_throws:
  "nativeCheckDebugger (status_sys ''abc'') = (Inl Invalid_argument, [F_checkTracerPid])
   \<and> nativeCheckDebugger (status_sys '''') = (Inl Invalid_argument, [F_checkTracerPid])
   \<and> nativeCheckDebugger (status_sys ''99999999999'') = (Inl Out_of_range, [F_checkTracerPid])"
  by code_simp




text \<open>
  C7. When the tracer probe reports no evidence, the active-attach probe returns false and
  has made no \<^verbatim>\<open>ptrace\<close> request. A \<^verbatim>\<open>ptrace\<close> request is made exactly when the tracer
  probe reports evidence, and then the probe's answer is whether the self-trace failed.
\<close>

theorem checkPtraceAttach_gated:
  "(checkTracerPid s = Inr False \<longrightarrow> checkPtraceAttach s = (Inr False, [F_checkTracerPid]))
   \<and> ((\<exists>r. F_ptrace r \<in> set (snd (checkPtraceAttach s))) = (checkTracerPid s = Inr True))
   \<and> (checkTracerPid s = Inr True \<longrightarrow>
        fst (checkPtraceAttach s) = Inr (\<not> ptrace_TRACEME_ok s)
        \<and> F_ptrace PTRACE_TRACEME \<in> set (snd (checkPtraceAttach s)))"
  by (auto simp: checkPtraceAttach_def split: sum.splits)

theorem checkPtraceAttach_gated_witness:
  "checkTracerPid (status_sys ''0'') = Inr False
   \<and> checkPtraceAttach (status_sys ''0'') = (Inr False, [F_checkTracerPid])
   \<and> checkTracerPid bare_sys = Inr False
   \<and> checkPtraceAttach bare_sys = (Inr False, [F_checkTracerPid])
   \<and> checkTracerPid ((status_sys ''1234'')\<lparr>ptrace_TRACEME_ok := False\<rparr>) = Inr True
   \<and> fst (checkPtraceAttach ((status_sys ''1234'')\<lparr>ptrace_TRACEME_ok := False\<rparr>)) = Inr True
   \<and> F_ptrace PTRACE_TRACEME
       \<in> set (snd (checkPtraceAttach ((status_sys ''1234'')\<lparr>ptrace_TRACEME_ok := False\<rparr>)))"
proof -
  have a: "checkTracerPid (status_sys ''0'') = Inr False"
    by code_simp
  have b: "checkTracerPid ((status_sys ''1234'')\<lparr>ptrace_TRACEME_ok := False\<rparr>) = Inr True"
    by code_simp
  have c: "\<not> ptrace_TRACEME_ok ((status_sys ''1234'')\<lparr>ptrace_TRACEME_ok := False\<rparr>)"
    by simp
  have d: "checkTracerPid bare_sys = Inr False"
    by code_simp
  show ?thesis
    using a b c d checkPtraceAttach_gated [of "status_sys ''0''"]
      checkPtraceAttach_gated [of bare_sys]
      checkPtraceAttach_gated [of "(status_sys ''1234'')\<lparr>ptrace_TRACEME_ok := False\<rparr>"]
    by simp
qed

section \<open>The probes on files and code bytes\<close>

text \<open>
  C6. The su probe returns true when some path of its list can be \<^verbatim>\<open>stat\<close>ed and has
  the owner's execute bit set, and false when every path of the list is either absent or
  present without that bit.
\<close>

theorem checkSuBinary_iff:
  "checkSuBinary s
     = (\<exists>path\<in>set suPaths. \<exists>st_mode. stat s path = Some st_mode \<and> st_mode AND S_IXUSR \<noteq> 0)"
  by (simp add: checkSuBinary_def su_loop_iff)

text \<open>\<^verbatim>\<open>/sbin/su\<close> with mode 0100755 is evidence; with mode 0100644, or absent, it is not.\<close>

theorem checkSuBinary_iff_witness:
  "checkSuBinary (su_sys 0x81ED) \<and> \<not> checkSuBinary (su_sys 0x81A4) \<and> \<not> checkSuBinary bare_sys
   \<and> (\<exists>path\<in>set suPaths. \<exists>st_mode. stat (su_sys 0x81ED) path = Some st_mode
         \<and> st_mode AND S_IXUSR \<noteq> 0)"
proof -
  have "stat (su_sys 0x81ED) ''/sbin/su'' = Some 0x81ED \<and> (0x81ED :: mode_t) AND S_IXUSR \<noteq> 0"
    by (simp add: su_sys_def S_IXUSR_def)
  moreover have "''/sbin/su'' \<in> set suPaths"
    by (simp add: suPaths_def)
  ultimately have a: "\<exists>path\<in>set suPaths. \<exists>st_mode. stat (su_sys 0x81ED) path = Some st_mode
         \<and> st_mode AND S_IXUSR \<noteq> 0"
    by blast
  have b: "\<not> checkSuBinary (su_sys 0x81A4)" and c: "\<not> checkSuBinary bare_sys"
    by code_simp+
  show ?thesis
    using a b c checkSuBinary_iff [of "su_sys 0x81ED"] by blast
qed

text \<open>
  C8. For a non-null function address, a non-null expected signature and a length above
  zero, \<^verbatim>\<open>detectFunctionHook\<close> returns true exactly when one of the first \<open>len\<close> bytes at
  the address differs from the byte of the signature at the same offset.
\<close>

theorem detectFunctionHook_iff:
  "funcPtr \<noteq> 0 \<Longrightarrow> expectedBytes \<noteq> 0 \<Longrightarrow> 0 < len \<Longrightarrow>
   detectFunctionHook m funcPtr expectedBytes len
     = (\<exists>i<len. m (funcPtr + of_nat i) \<noteq> m (expectedBytes + of_nat i))"
  by (simp add: detectFunctionHook_def compare_loop_iff)

theorem detectFunctionHook_iff_witness:
  "(0x1000 :: addr) \<noteq> 0 \<and> (0x2000 :: addr) \<noteq> 0 \<and> (0 :: nat) < 4
   \<and> (\<exists>i<4. patched_mem (0x1000 + of_nat i) \<noteq> patched_mem (0x2000 + of_nat i))
   \<and> detectFunctionHook patched_mem 0x1000 0x2000 4
   \<and> \<not> detectFunctionHook patched_mem 0x1000 0x2000 2"
proof -
  have a: "(0x1000 :: addr) \<noteq> 0" and b: "(0x2000 :: addr) \<noteq> 0"
    and c: "(0 :: nat) < 4" and c': "(0 :: nat) < 2"
    by simp_all
  have "patched_mem (0x1000 + of_nat 2) \<noteq> patched_mem (0x2000 + of_nat 2)"
    by (simp add: patched_mem_def)
  then have d: "\<exists>i<4. patched_mem (0x1000 + of_nat i) \<noteq> patched_mem (0x2000 + of_nat i)"
    by (intro exI [of _ 2]) simp
  have "patched_mem (0x1000 + of_nat i) = patched_mem (0x2000 + of_nat i)" if "i < 2" for i
  proof -
    from that have "i = 0 \<or> i = 1" by auto
    then show ?thesis by (auto simp: patched_mem_def)
  qed
  then have e: "\<not> (\<exists>i<2. patched_mem (0x1000 + of_nat i) \<noteq> patched_mem (0x2000 + of_nat i))"
    by blast
  show ?thesis
    using a b c d e detectFunctionHook_iff [OF a b c, of patched_mem]
      detectFunctionHook_iff [OF a b c', of patched_mem]
    by blast
qed

text \<open>
  C9. Whatever instruction word stands at the resolved address of \<^verbatim>\<open>open\<close>, the inline-hook
  probe reports a hook exactly when the word matches the unconditional-branch pattern
  (\<open>instr AND 0xFC000000 = 0x14000000\<close>) or the load-literal trampoline pattern
  (\<open>instr AND 0xFF000000 = 0x58000000\<close>).
\<close>

theorem checkInlineHook_classifies:
  "dlsym s ''open'' = openAddr \<Longrightarrow> openAddr \<noteq> 0 \<Longrightarrow> load32 (mem s) openAddr = instr \<Longrightarrow>
   checkInlineHook s = (instr AND 0xFC000000 = 0x14000000 \<or> instr AND 0xFF000000 = 0x58000000)"
  by (auto simp: checkInlineHook_def Let_def)

text \<open>A branch (\<open>0x14000010\<close>) and a load-literal (\<open>0x58000050\<close>) are reported; the usual
  prologue \<^verbatim>\<open>stp x29, x30, [sp, #-16]!\<close> (\<open>0xA9BF7BFD\<close>) is not.\<close>

theorem checkInlineHook_classifies_witness:
  "dlsym (open_code_sys 0x10 0 0 0x14) ''open'' = 0x7000 \<and> (0x7000 :: addr) \<noteq> 0
   \<and> load32 (mem (open_code_sys 0x10 0 0 0x14)) 0x7000 = 0x14000010
   \<and> checkInlineHook (open_code_sys 0x10 0 0 0x14)
   \<and> load32 (mem (open_code_sys 0x50 0 0 0x58)) 0x7000 = 0x58000050
   \<and> checkInlineHook (open_code_sys 0x50 0 0 0x58)
   \<and> load32 (mem (open_code_sys 0xFD 0x7B 0xBF 0xA9)) 0x7000 = 0xA9BF7BFD
   \<and> \<not> checkInlineHook (open_code_sys 0xFD 0x7B 0xBF 0xA9)"
proof -
  have d: "\<And>b0 b1 b2 b3. dlsym (open_code_sys b0 b1 b2 b3) ''open'' = 0x7000"
    by (simp add: open_code_sys_def)
  have n: "(0x7000 :: addr) \<noteq> 0" by simp
  have l1: "load32 (mem (open_code_sys 0x10 0 0 0x14)) 0x7000 = 0x14000010"
    by (simp add: open_code_sys_def load32_def)
  have l2: "load32 (mem (open_code_sys 0x50 0 0 0x58)) 0x7000 = 0x58000050"
    by (simp add: open_code_sys_def load32_def)
  have l3: "load32 (mem (open_code_sys 0xFD 0x7B 0xBF 0xA9)) 0x7000 = 0xA9BF7BFD"
    by (simp add: open_code_sys_def load32_def)
  show ?thesis
    using d n l1 l2 l3 checkInlineHook_classifies [OF d n l1]
      checkInlineHook_classifies [OF d n l2] checkInlineHook_classifies [OF d n l3]
    by simp
qed

end
